theory Spec2Isabelle
  imports Complex_Main "HOL-Library.Monad_Syntax" "HOL-Library.AList"
begin

section \<open>Values and strings\<close>

text \<open>
  A Go value of type \<^verbatim>\<open>any\<close> as it occurs in the converter: the argument bag of a tool
  call, the \<^verbatim>\<open>default\<close>, \<^verbatim>\<open>example\<close> and \<^verbatim>\<open>enum\<close> members of a schema and
  the property descriptors the schema walker builds (\<^verbatim>\<open>map[string]interface{}\<close>).
  \<open>JNull\<close> is the nil interface. A map is an association list; its keys are distinct
  and the order of the list is the order in which the entries were written.
\<close>

datatype jvalue =
    JNull
  | JBool bool
  | JUInt nat
  | JFloat real
  | JStr string
  | JArr "jvalue list"
  | JObj "(string \<times> jvalue) list"

text \<open>A returned \<^verbatim>\<open>error\<close> value (with its message) or a run-time panic.\<close>

datatype error = Error string | Panic string

definition HasPrefix :: "string \<Rightarrow> string \<Rightarrow> bool" where
  "HasPrefix s pre = (take (length pre) s = pre)"

definition TrimPrefix :: "string \<Rightarrow> string \<Rightarrow> string" where
  "TrimPrefix s pre = (if HasPrefix s pre then drop (length pre) s else s)"

text \<open>
  \<^verbatim>\<open>strings.ReplaceAll(s, old, new)\<close> for a non-empty \<open>old\<close>: the non-overlapping
  occurrences are replaced from left to right. \<open>skip\<close> counts the characters of a matched
  occurrence that are still to be dropped.
\<close>

fun replaceFrom :: "nat \<Rightarrow> string \<Rightarrow> string \<Rightarrow> string \<Rightarrow> string" where
  "replaceFrom skip [] old new = []"
| "replaceFrom (Suc skip) (c # s) old new = replaceFrom skip s old new"
| "replaceFrom 0 (c # s) old new =
     (if HasPrefix (c # s) old then new @ replaceFrom (length old - 1) s old new
      else c # replaceFrom 0 s old new)"

definition ReplaceAll :: "string \<Rightarrow> string \<Rightarrow> string \<Rightarrow> string" where
  "ReplaceAll s old new = replaceFrom 0 s old new"

text \<open>\<^verbatim>\<open>strings.Trim(s, "/")\<close>, \<^verbatim>\<open>strings.Split(s, "/")\<close> and \<^verbatim>\<open>strings.Join\<close>.\<close>

definition Trim :: "string \<Rightarrow> char \<Rightarrow> string" where
  "Trim s c = rev (dropWhile (\<lambda>x. x = c) (rev (dropWhile (\<lambda>x. x = c) s)))"

fun Split :: "string \<Rightarrow> char \<Rightarrow> string list" where
  "Split [] sep = [[]]"
| "Split (c # s) sep =
     (if c = sep then [] # Split s sep
      else (case Split s sep of [] \<Rightarrow> [[c]] | w # ws \<Rightarrow> (c # w) # ws))"

fun Join :: "string list \<Rightarrow> string \<Rightarrow> string" where
  "Join [] sep = []"
| "Join [w] sep = w"
| "Join (w # ws) sep = w @ sep @ Join ws sep"

text \<open>
  \<^verbatim>\<open>strings.ToLower\<close> and \<^verbatim>\<open>strings.ToUpper\<close> on the ASCII letters; the methods the
  converter passes are the ASCII literals of \<^verbatim>\<open>getOperations\<close>.
\<close>

definition lowerChar :: "char \<Rightarrow> char" where
  "lowerChar c = (let n = of_char c :: nat in if 65 \<le> n \<and> n \<le> 90 then char_of (n + 32) else c)"

definition upperChar :: "char \<Rightarrow> char" where
  "upperChar c = (let n = of_char c :: nat in if 97 \<le> n \<and> n \<le> 122 then char_of (n - 32) else c)"

definition ToLower :: "string \<Rightarrow> string" where
  "ToLower s = map lowerChar s"

definition ToUpper :: "string \<Rightarrow> string" where
  "ToUpper s = map upperChar s"

text \<open>The verb \<^verbatim>\<open>%d\<close> of \<^verbatim>\<open>fmt.Sprintf\<close> on an \<^verbatim>\<open>int\<close>: decimal digits, with a sign.\<close>

fun decimalNat :: "nat \<Rightarrow> string" where
  "decimalNat n =
     (if n < 10 then [''0123456789'' ! n]
      else decimalNat (n div 10) @ [''0123456789'' ! (n mod 10)])"

declare decimalNat.simps [simp del]

definition decimal :: "int \<Rightarrow> string" where
  "decimal i = (if i < 0 then ''-'' @ decimalNat (nat (- i)) else decimalNat (nat i))"

section \<open>Schemas\<close>

text \<open>
  \<^verbatim>\<open>openapi3.Schema\<close>, with the fields the converter reads. Schema values are reached
  through pointers (\<^verbatim>\<open>SchemaRef.Value\<close>), and a resolved document may point back at a
  schema that is being walked, so the schemas live in a heap and a reference is an
  address; \<open>None\<close> is a reference whose \<^verbatim>\<open>Value\<close> is nil (or, for \<^verbatim>\<open>Not\<close>,
  \<^verbatim>\<open>Items\<close> and the schema of \<^verbatim>\<open>AdditionalProperties\<close>, a nil reference).
  \<^verbatim>\<open>Type\<close> is a pointer to a slice of type names. \<^verbatim>\<open>Properties\<close> is a Go map: its list
  is given in the order the \<^verbatim>\<open>range\<close> loop happens to visit it.
\<close>

type_synonym ptr = nat
type_synonym ref = "ptr option"

record discriminator =
  PropertyName :: string
  Mapping :: "(string \<times> string) list"

record external_docs =
  docs_Description :: string
  docs_URL :: string

record xml =
  xml_Name :: string
  xml_Namespace :: string
  xml_Prefix :: string
  xml_Attribute :: bool
  xml_Wrapped :: bool

record schema =
  Type :: "string list option"
  Title :: string
  Description :: string
  Default :: jvalue
  Example :: jvalue
  Enum :: "jvalue list"
  Format :: string
  OneOf :: "ref list"
  AnyOf :: "ref list"
  AllOf :: "ref list"
  Not' :: ref
  Nullable :: bool
  ReadOnly :: bool
  WriteOnly :: bool
  Deprecated :: bool
  AllowEmptyValue :: bool
  UniqueItems :: bool
  ExclusiveMin :: bool
  ExclusiveMax :: bool
  Min' :: "real option"
  Max' :: "real option"
  MultipleOf :: "real option"
  MinLength :: nat
  MaxLength :: "nat option"
  Pattern :: string
  MinItems :: nat
  MaxItems :: "nat option"
  MinProps :: nat
  MaxProps :: "nat option"
  Required :: "string list"
  AdditionalProperties_Has :: "bool option"
  AdditionalProperties_Schema :: ref
  Discriminator :: "discriminator option"
  Properties :: "(string \<times> ref) list"
  Items :: ref
  ExternalDocs :: "external_docs option"
  XML :: "xml option"

type_synonym heap = "ptr \<Rightarrow> schema"

text \<open>The walker's \<^verbatim>\<open>visited map[string]bool\<close>: only \<^verbatim>\<open>true\<close> is ever stored.\<close>

type_synonym visited = "string set"

text \<open>\<^verbatim>\<open>schema.Type.Is(t)\<close>: the type list is present and is exactly \<open>[t]\<close>.\<close>

definition Is :: "schema \<Rightarrow> string \<Rightarrow> bool" where
  "Is s t = (Type s = Some [t])"

definition typeValue :: "string list \<Rightarrow> jvalue" where
  "typeValue ts = JArr (map JStr ts)"

definition entryIf :: "bool \<Rightarrow> string \<Rightarrow> jvalue \<Rightarrow> (string \<times> jvalue) list" where
  "entryIf b k v = (if b then [(k, v)] else [])"

definition entryOpt :: "string \<Rightarrow> 'a option \<Rightarrow> ('a \<Rightarrow> jvalue) \<Rightarrow> (string \<times> jvalue) list" where
  "entryOpt k x f = (case x of None \<Rightarrow> [] | Some y \<Rightarrow> [(k, f y)])"

section \<open>The schema walker\<close>

text \<open>The descriptor returned in place of a schema whose title is in the visited map.\<close>

definition circularStub :: "string \<Rightarrow> jvalue" where
  "circularStub refKey = JObj
     [(''type'', JStr ''reference''),
      (''description'', JStr (''Circular reference to '' @ refKey)),
      (''title'', JStr refKey)]"

text \<open>
  The loops over \<^verbatim>\<open>OneOf\<close>, \<^verbatim>\<open>AnyOf\<close>, \<^verbatim>\<open>AllOf\<close> (results appended to a slice) and over
  \<^verbatim>\<open>Properties\<close> (results stored in a map under the property name). \<open>f\<close> is the
  recursive call. A Go map is passed by reference, so a callee that writes to the
  visited map it received changes the caller's map: every call returns the map it was
  given as it is when the call ends, and the next iteration goes on with that.
\<close>

fun walkRefs :: "(ptr \<Rightarrow> visited \<Rightarrow> (jvalue \<times> visited) option) \<Rightarrow> ref list \<Rightarrow> visited
    \<Rightarrow> (jvalue list \<times> visited) option" where
  "walkRefs f [] v = Some ([], v)"
| "walkRefs f (None # rs) v = walkRefs f rs v"
| "walkRefs f (Some p # rs) v =
     (case f p v of None \<Rightarrow> None
      | Some (d, v') \<Rightarrow>
          (case walkRefs f rs v' of None \<Rightarrow> None
           | Some (ds, v'') \<Rightarrow> Some (d # ds, v'')))"

fun walkProps :: "(ptr \<Rightarrow> visited \<Rightarrow> (jvalue \<times> visited) option) \<Rightarrow> (string \<times> ref) list \<Rightarrow> visited
    \<Rightarrow> (string \<times> jvalue) list \<Rightarrow> ((string \<times> jvalue) list \<times> visited) option" where
  "walkProps f [] v acc = Some (acc, v)"
| "walkProps f ((propName, None) # rs) v acc = walkProps f rs v acc"
| "walkProps f ((propName, Some p) # rs) v acc =
     (case f p v of None \<Rightarrow> None
      | Some (d, v') \<Rightarrow> walkProps f rs v' (AList.update propName d acc))"

text \<open>The sections of \<^verbatim>\<open>processSchemaProperty\<close> that copy attributes of the schema.\<close>

definition basicMetadata :: "schema \<Rightarrow> (string \<times> jvalue) list" where
  "basicMetadata s =
     entryIf (Title s \<noteq> []) ''title'' (JStr (Title s)) @
     entryIf (Description s \<noteq> []) ''description'' (JStr (Description s)) @
     entryIf (Default s \<noteq> JNull) ''default'' (Default s) @
     entryIf (Example s \<noteq> JNull) ''example'' (Example s) @
     entryIf (Enum s \<noteq> []) ''enum'' (JArr (Enum s)) @
     entryIf (Format s \<noteq> []) ''format'' (JStr (Format s))"

definition booleanFlags :: "schema \<Rightarrow> (string \<times> jvalue) list" where
  "booleanFlags s =
     entryIf (Nullable s) ''nullable'' (JBool (Nullable s)) @
     entryIf (ReadOnly s) ''readOnly'' (JBool (ReadOnly s)) @
     entryIf (WriteOnly s) ''writeOnly'' (JBool (WriteOnly s)) @
     entryIf (Deprecated s) ''deprecated'' (JBool (Deprecated s)) @
     entryIf (AllowEmptyValue s) ''allowEmptyValue'' (JBool (AllowEmptyValue s)) @
     entryIf (UniqueItems s) ''uniqueItems'' (JBool (UniqueItems s)) @
     entryIf (ExclusiveMin s) ''exclusiveMinimum'' (JBool (ExclusiveMin s)) @
     entryIf (ExclusiveMax s) ''exclusiveMaximum'' (JBool (ExclusiveMax s))"

definition validations :: "schema \<Rightarrow> (string \<times> jvalue) list" where
  "validations s =
     entryOpt ''minimum'' (Min' s) JFloat @
     entryOpt ''maximum'' (Max' s) JFloat @
     entryOpt ''multipleOf'' (MultipleOf s) JFloat @
     entryIf (MinLength s \<noteq> 0) ''minLength'' (JUInt (MinLength s)) @
     entryOpt ''maxLength'' (MaxLength s) JUInt @
     entryIf (Pattern s \<noteq> []) ''pattern'' (JStr (Pattern s)) @
     entryIf (MinItems s \<noteq> 0) ''minItems'' (JUInt (MinItems s)) @
     entryOpt ''maxItems'' (MaxItems s) JUInt @
     entryIf (MinProps s \<noteq> 0) ''minProperties'' (JUInt (MinProps s)) @
     entryOpt ''maxProperties'' (MaxProps s) JUInt @
     entryIf (Required s \<noteq> []) ''required'' (JArr (map JStr (Required s)))"

definition discriminatorEntry :: "schema \<Rightarrow> (string \<times> jvalue) list" where
  "discriminatorEntry s =
     entryOpt ''discriminator'' (Discriminator s) (\<lambda>d. JObj
       ((''propertyName'', JStr (PropertyName d)) #
        entryIf (Mapping d \<noteq> []) ''mapping'' (JObj (map (\<lambda>(k, v). (k, JStr v)) (Mapping d)))))"

definition externalDocsEntry :: "schema \<Rightarrow> (string \<times> jvalue) list" where
  "externalDocsEntry s =
     entryOpt ''externalDocs'' (ExternalDocs s) (\<lambda>e. JObj
       (entryIf (docs_Description e \<noteq> []) ''description'' (JStr (docs_Description e)) @
        entryIf (docs_URL e \<noteq> []) ''url'' (JStr (docs_URL e))))"

definition xmlEntry :: "schema \<Rightarrow> (string \<times> jvalue) list" where
  "xmlEntry s =
     entryOpt ''xml'' (XML s) (\<lambda>x. JObj
       (entryIf (xml_Name x \<noteq> []) ''name'' (JStr (xml_Name x)) @
        entryIf (xml_Namespace x \<noteq> []) ''namespace'' (JStr (xml_Namespace x)) @
        entryIf (xml_Prefix x \<noteq> []) ''prefix'' (JStr (xml_Prefix x)) @
        [(''attribute'', JBool (xml_Attribute x)), (''wrapped'', JBool (xml_Wrapped x))]))"

text \<open>
  The recursive sections of \<^verbatim>\<open>processSchemaProperty\<close>, in the order in which the
  function runs them; \<open>f\<close> is \<^verbatim>\<open>processSchemaProperty\<close> and \<open>g\<close> is
  \<^verbatim>\<open>processSchemaItems\<close>. Each returns the entries it adds to the descriptor.
\<close>

definition walkComposition :: "(ptr \<Rightarrow> visited \<Rightarrow> (jvalue \<times> visited) option) \<Rightarrow> string \<Rightarrow> ref list
    \<Rightarrow> visited \<Rightarrow> ((string \<times> jvalue) list \<times> visited) option" where
  "walkComposition f key refs v =
     (if refs \<noteq> [] then
        (case walkRefs f refs v of None \<Rightarrow> None
         | Some (ds, v') \<Rightarrow> Some (entryIf (ds \<noteq> []) key (JArr ds), v'))
      else Some ([], v))"

definition walkOne :: "(ptr \<Rightarrow> visited \<Rightarrow> (jvalue \<times> visited) option) \<Rightarrow> string \<Rightarrow> ptr
    \<Rightarrow> visited \<Rightarrow> ((string \<times> jvalue) list \<times> visited) option" where
  "walkOne f key p v = (case f p v of None \<Rightarrow> None | Some (d, v') \<Rightarrow> Some ([(key, d)], v'))"

definition walkNot :: "(ptr \<Rightarrow> visited \<Rightarrow> (jvalue \<times> visited) option) \<Rightarrow> schema
    \<Rightarrow> visited \<Rightarrow> ((string \<times> jvalue) list \<times> visited) option" where
  "walkNot f s v = (case Not' s of None \<Rightarrow> Some ([], v) | Some p \<Rightarrow> walkOne f ''not'' p v)"

definition walkAdditionalProperties :: "(ptr \<Rightarrow> visited \<Rightarrow> (jvalue \<times> visited) option) \<Rightarrow> schema
    \<Rightarrow> visited \<Rightarrow> ((string \<times> jvalue) list \<times> visited) option" where
  "walkAdditionalProperties f s v =
     (case AdditionalProperties_Has s of
        Some b \<Rightarrow> Some ([(''additionalProperties'', JBool b)], v)
      | None \<Rightarrow>
         (case AdditionalProperties_Schema s of None \<Rightarrow> Some ([], v)
          | Some p \<Rightarrow> walkOne f ''additionalProperties'' p v))"

definition walkNested :: "(ptr \<Rightarrow> visited \<Rightarrow> (jvalue \<times> visited) option) \<Rightarrow> schema
    \<Rightarrow> visited \<Rightarrow> ((string \<times> jvalue) list \<times> visited) option" where
  "walkNested f s v =
     (if Type s \<noteq> None \<and> Is s ''object'' \<and> Properties s \<noteq> [] then
        (case walkProps f (Properties s) v [] of None \<Rightarrow> None
         | Some (nestedProps, v') \<Rightarrow> Some ([(''properties'', JObj nestedProps)], v'))
      else Some ([], v))"

definition walkItems :: "(ptr \<Rightarrow> visited \<Rightarrow> (jvalue \<times> visited) option) \<Rightarrow> schema
    \<Rightarrow> visited \<Rightarrow> ((string \<times> jvalue) list \<times> visited) option" where
  "walkItems g s v =
     (if Type s \<noteq> None \<and> Is s ''array'' then
        (case Items s of None \<Rightarrow> Some ([], v) | Some p \<Rightarrow> walkOne g ''items'' p v)
      else Some ([], v))"

text \<open>The two recursive sections of \<^verbatim>\<open>processSchemaItems\<close>.\<close>

definition walkItemProperties :: "(ptr \<Rightarrow> visited \<Rightarrow> (jvalue \<times> visited) option) \<Rightarrow> schema
    \<Rightarrow> visited \<Rightarrow> ((string \<times> jvalue) list \<times> visited) option" where
  "walkItemProperties f s v =
     (if Properties s \<noteq> [] then
        (case walkProps f (Properties s) v [] of None \<Rightarrow> None
         | Some (properties, v') \<Rightarrow> Some ([(''properties'', JObj properties)], v'))
      else Some ([], v))"

definition walkItemItems :: "(ptr \<Rightarrow> visited \<Rightarrow> (jvalue \<times> visited) option) \<Rightarrow> schema
    \<Rightarrow> visited \<Rightarrow> ((string \<times> jvalue) list \<times> visited) option" where
  "walkItemItems g s v = (case Items s of None \<Rightarrow> Some ([], v) | Some p \<Rightarrow> walkOne g ''items'' p v)"

text \<open>
  \<^verbatim>\<open>processSchemaProperty\<close> and \<^verbatim>\<open>processSchemaItems\<close>. The first argument bounds the
  depth of the recursion: the Go functions recurse for as long as the schema graph leads
  them on, and \<open>None\<close> says that the walk did not return within that depth. The second
  component of a result is the map the caller passed, as the call leaves it.

  A titled schema that is not yet in the map writes its title into the caller's map and
  then goes on with a copy of its own, so nothing its children write reaches the caller;
  an untitled schema goes on with the caller's map itself.
\<close>

fun processSchemaProperty :: "nat \<Rightarrow> heap \<Rightarrow> ptr \<Rightarrow> visited \<Rightarrow> (jvalue \<times> visited) option"
and processSchemaItems :: "nat \<Rightarrow> heap \<Rightarrow> ptr \<Rightarrow> visited \<Rightarrow> (jvalue \<times> visited) option" where
  "processSchemaProperty 0 h p visited = None"
| "processSchemaProperty (Suc n) h p visited =
     (let schema = h p in
      if Title schema \<noteq> [] \<and> Title schema \<in> visited then
        Some (circularStub (Title schema), visited)
      else
        let callerVisited = (if Title schema \<noteq> [] then insert (Title schema) visited else visited);
            f = processSchemaProperty n h
        in do {
          (oneOf, v1) \<leftarrow> walkComposition f ''oneOf'' (OneOf schema) callerVisited;
          (anyOf, v2) \<leftarrow> walkComposition f ''anyOf'' (AnyOf schema) v1;
          (allOf, v3) \<leftarrow> walkComposition f ''allOf'' (AllOf schema) v2;
          (not, v4) \<leftarrow> walkNot f schema v3;
          (additional, v5) \<leftarrow> walkAdditionalProperties f schema v4;
          (nested, v6) \<leftarrow> walkNested f schema v5;
          (items, v7) \<leftarrow> walkItems (processSchemaItems n h) schema v6;
          Some (JObj
             (entryOpt ''type'' (Type schema) typeValue @ basicMetadata schema @
              oneOf @ anyOf @ allOf @ not @
              booleanFlags schema @ validations schema @
              additional @ discriminatorEntry schema @
              nested @ items @
              externalDocsEntry schema @ xmlEntry schema),
             if Title schema \<noteq> [] then callerVisited else v7)
        })"
| "processSchemaItems 0 h p visited = None"
| "processSchemaItems (Suc n) h p visited =
     (let schema = h p in do {
        (properties, v1) \<leftarrow> walkItemProperties (processSchemaProperty n h) schema visited;
        (items, v2) \<leftarrow> walkItemItems (processSchemaItems n h) schema v1;
        Some (JObj
           (entryOpt ''type'' (Type schema) typeValue @
            entryIf (Description schema \<noteq> []) ''description'' (JStr (Description schema)) @
            properties @ items),
           v2)
      })"

text \<open>\<^verbatim>\<open>processSchemaProperties\<close>: the properties of an object schema, by name.\<close>

definition processSchemaProperties :: "nat \<Rightarrow> heap \<Rightarrow> schema \<Rightarrow> visited
    \<Rightarrow> ((string \<times> jvalue) list \<times> visited) option" where
  "processSchemaProperties n h s visited = walkProps (processSchemaProperty n h) (Properties s) visited []"


text \<open>The item schema of \<^verbatim>\<open>schema.Type.Is("array") && schema.Items != nil && schema.Items.Value != nil\<close>.\<close>

definition arrayItems :: "schema \<Rightarrow> ref" where
  "arrayItems s = (if Is s ''array'' then Items s else None)"






text \<open>\<open>f'\<close> returns whatever \<open>f\<close> returns.\<close>

definition extendedBy :: "(ptr \<Rightarrow> visited \<Rightarrow> (jvalue \<times> visited) option) \<Rightarrow> (ptr \<Rightarrow> visited \<Rightarrow> (jvalue \<times> visited) option) \<Rightarrow> bool" where
  "extendedBy f f' = (\<forall>p v r. f p v = Some r \<longrightarrow> f' p v = Some r)"

section \<open>The document model\<close>

text \<open>
  The parts of the parsed document (\<^verbatim>\<open>openapi3.T\<close>) that the converter reads. A pointer
  that may be nil is an \<open>option\<close>; a Go map is an association list in the order in which
  the \<^verbatim>\<open>range\<close> loop visits it. The schemas that the document points to are in the
  heap, which the converting functions take as the argument \<open>h\<close>.
\<close>

record server =
  URL :: string

record security_scheme =
  ss_Type :: string
  ss_In :: string
  ss_Name :: string
  ss_Scheme :: string

record components =
  SecuritySchemes :: "(string \<times> security_scheme option) list"

record parameter =
  param_Name :: string
  param_In :: string
  param_Description :: string
  param_Required :: bool
  param_Schema :: ref

record media_type =
  mt_Schema :: ref

record request_body =
  rb_Description :: string
  rb_Required :: bool
  rb_Content :: "(string \<times> media_type) list"

record response =
  resp_Description :: "string option"
  resp_ExtensionSchema :: jvalue
  resp_Content :: "(string \<times> media_type) list"

record operation =
  OperationID :: string
  Summary :: string
  op_Description :: string
  op_Deprecated :: bool
  Parameters :: "parameter option list"
  RequestBody :: "request_body option"
  Security :: "(string \<times> string list) list list option"
  Responses :: "(string \<times> response option) list option"

record path_item =
  Get :: "operation option"
  Post :: "operation option"
  Put :: "operation option"
  Delete :: "operation option"
  Options :: "operation option"
  Head :: "operation option"
  Patch :: "operation option"
  Trace :: "operation option"

record info =
  info_Title :: string
  info_Version :: string

record document =
  Info :: "info option"
  Servers :: "server list"
  Components :: "components option"
  Paths :: "(string \<times> path_item) list"

section \<open>Library functions\<close>

text \<open>
  The functions of the Go standard library that the converter calls and whose results
  it only passes on. They are parameters of the model: every theorem holds for whatever
  they compute. \<open>sprintv\<close> is \<^verbatim>\<open>fmt.Sprintf("%v", v)\<close>; \<open>unmarshalSchema\<close> is
  \<^verbatim>\<open>json.Unmarshal\<close> into a fresh \<^verbatim>\<open>openapi3.Schema\<close>, whose address it returns;
  \<open>NewRequestError\<close> is the error, if any, with which \<^verbatim>\<open>http.NewRequestWithContext\<close>
  rejects a method and a URL; \<open>basicAuthValue\<close> is the base64 credential that
  \<^verbatim>\<open>SetBasicAuth\<close> writes after \<^verbatim>\<open>Basic\<close>; \<open>clientDo\<close> is \<^verbatim>\<open>http.DefaultClient.Do\<close>.
\<close>

record url =
  url_Rest :: string
  RawQuery :: string

record http_request =
  req_Method :: string
  req_URL :: string
  req_Header :: "(string \<times> string list) list"
  req_Body :: "string option"

record http_response =
  StatusCode :: int
  resp_Body :: "string + string"

record lib =
  sprintv :: "jvalue \<Rightarrow> string"
  jsonMarshal :: "jvalue \<Rightarrow> string + string"
  unmarshalSchema :: "string \<Rightarrow> string + ptr"
  JoinPath :: "string \<Rightarrow> string \<Rightarrow> string + string"
  urlParse :: "string \<Rightarrow> string + url"
  urlQuery :: "url \<Rightarrow> (string \<times> string list) list"
  valuesEncode :: "(string \<times> string list) list \<Rightarrow> string"
  urlString :: "url \<Rightarrow> string"
  NewRequestError :: "string \<Rightarrow> string \<Rightarrow> string option"
  CanonicalHeaderKey :: "string \<Rightarrow> string"
  basicAuthValue :: "string \<Rightarrow> string \<Rightarrow> string"
  clientDo :: "http_request \<Rightarrow> string + http_response"

text \<open>
  \<^verbatim>\<open>url.Values.Add\<close>, \<^verbatim>\<open>http.Header.Add\<close> and \<^verbatim>\<open>http.Header.Set\<close> on a map from a
  key to its list of values; the header functions canonicalise the key.
\<close>

definition valuesAdd :: "(string \<times> string list) list \<Rightarrow> string \<Rightarrow> string \<Rightarrow> (string \<times> string list) list" where
  "valuesAdd vs k v = AList.update k ((case map_of vs k of None \<Rightarrow> [] | Some old \<Rightarrow> old) @ [v]) vs"

definition headerAdd :: "lib \<Rightarrow> (string \<times> string list) list \<Rightarrow> string \<Rightarrow> string \<Rightarrow> (string \<times> string list) list" where
  "headerAdd l h k v = valuesAdd h (CanonicalHeaderKey l k) v"

definition headerSet :: "lib \<Rightarrow> (string \<times> string list) list \<Rightarrow> string \<Rightarrow> string \<Rightarrow> (string \<times> string list) list" where
  "headerSet l h k v = AList.update (CanonicalHeaderKey l k) [v] h"


section \<open>Tool definitions\<close>

text \<open>
  The options of the tool library as data: a tool is the name and the list of options
  that \<^verbatim>\<open>convertOperation\<close> passes to \<^verbatim>\<open>mcp.NewTool\<close>, each argument option with the
  property options it was built from.
\<close>

datatype property_option =
    mcp_Description string
  | mcp_Required
  | mcp_DefaultString string
  | mcp_Enum "string list"
  | mcp_Items jvalue
  | mcp_Properties "(string \<times> jvalue) list"

datatype tool_option =
    WithString string "property_option list"
  | WithNumber string "property_option list"
  | WithBoolean string "property_option list"
  | WithObject string "property_option list"
  | WithArray string "property_option list"
  | WithDescription string

record tool =
  tool_Name :: string
  tool_Options :: "tool_option list"

datatype propertyType =
    PropertyTypeString
  | PropertyTypeInteger
  | PropertyTypeNumber
  | PropertyTypeBoolean
  | PropertyTypeObject
  | PropertyTypeArray

fun createToolOption :: "propertyType \<Rightarrow> string \<Rightarrow> property_option list \<Rightarrow> tool_option" where
  "createToolOption PropertyTypeString name options = WithString name options"
| "createToolOption PropertyTypeInteger name options = WithNumber name options"
| "createToolOption PropertyTypeNumber name options = WithNumber name options"
| "createToolOption PropertyTypeBoolean name options = WithBoolean name options"
| "createToolOption PropertyTypeObject name options = WithObject name options"
| "createToolOption PropertyTypeArray name options = WithArray name options"

record Options =
  ServerName :: string
  Version :: string
  ToolNamePrefix :: string

text \<open>The converter: the parser's document (nil before a document is loaded) and the options.\<close>

record Converter =
  parser :: "document option"
  options :: Options

definition GetServers :: "document option \<Rightarrow> server list" where
  "GetServers p = (case p of None \<Rightarrow> [] | Some doc \<Rightarrow> Servers doc)"

definition GetPaths :: "document option \<Rightarrow> (string \<times> path_item) list" where
  "GetPaths p = (case p of None \<Rightarrow> [] | Some doc \<Rightarrow> Paths doc)"

definition GetInfo :: "document option \<Rightarrow> info option" where
  "GetInfo p = (case p of None \<Rightarrow> None | Some doc \<Rightarrow> Info doc)"

subsection \<open>Tool name\<close>

text \<open>
  \<^verbatim>\<open>GetOperationID\<close>. \<^verbatim>\<open>strings.Split\<close> returns at least one part, also for the empty
  string; the branch for an empty list of parts is kept as the source has it.
\<close>

definition GetOperationID :: "string \<Rightarrow> string \<Rightarrow> operation \<Rightarrow> string" where
  "GetOperationID path method operation =
     (if OperationID operation \<noteq> [] then OperationID operation
      else
        let pathParts = Split (Trim path (CHR ''/'')) (CHR ''/'');
            pathName =
              (if length pathParts > 0 then
                 ReplaceAll (ReplaceAll (Join pathParts ''_'') ''{'' []) ''}'' []
               else ''root'')
        in ToLower method @ ''_'' @ pathName)"

subsection \<open>Parameters and request body\<close>

definition enumValues :: "lib \<Rightarrow> jvalue list \<Rightarrow> string list" where
  "enumValues l vals = map (\<lambda>val. case val of JStr strVal \<Rightarrow> strVal | _ \<Rightarrow> sprintv l val) vals"

text \<open>
  The body of the loop of \<^verbatim>\<open>convertParameters\<close> for one parameter whose \<^verbatim>\<open>Value\<close> is
  not nil. \<open>None\<close>: a schema walk did not return within depth \<open>n\<close>.
\<close>

definition convertParameter :: "nat \<Rightarrow> lib \<Rightarrow> heap \<Rightarrow> parameter \<Rightarrow> tool_option option" where
  "convertParameter n l h param =
     (let propertyOptions =
            mcp_Description (param_Description param) #
            (if param_Required param then [mcp_Required] else []);
          typed =
            (case param_Schema param of
               None \<Rightarrow> Some (PropertyTypeString, propertyOptions)
             | Some sp \<Rightarrow>
                 let schema = h sp;
                     kind =
                       (case arrayItems schema of
                          Some ip \<Rightarrow>
                            (case processSchemaItems n h ip {} of None \<Rightarrow> None
                             | Some (item, _) \<Rightarrow> Some (PropertyTypeArray, propertyOptions @ [mcp_Items item]))
                        | None \<Rightarrow>
                        if Is schema ''object'' \<and> Properties schema \<noteq> [] then
                          (case processSchemaProperties n h schema {} of None \<Rightarrow> None
                           | Some (obj, _) \<Rightarrow> Some (PropertyTypeObject, propertyOptions @ [mcp_Properties obj]))
                        else if Is schema ''integer'' then Some (PropertyTypeInteger, propertyOptions)
                        else if Is schema ''number'' then Some (PropertyTypeNumber, propertyOptions)
                        else if Is schema ''boolean'' then Some (PropertyTypeBoolean, propertyOptions)
                        else Some (PropertyTypeString, propertyOptions))
                 in (case kind of None \<Rightarrow> None
                     | Some (t, opts) \<Rightarrow> Some (t,
                         opts @
                         (if Enum schema \<noteq> [] then [mcp_Enum (enumValues l (Enum schema))] else []) @
                         (if Example schema \<noteq> JNull then [mcp_DefaultString (sprintv l (Example schema))]
                          else []))))
      in (case typed of None \<Rightarrow> None
          | Some (t, opts) \<Rightarrow>
              Some (if param_In param = ''body'' then createToolOption t (param_In param) opts
                    else createToolOption t (param_In param @ ''|'' @ param_Name param) opts)))"

fun convertParameters :: "nat \<Rightarrow> lib \<Rightarrow> heap \<Rightarrow> parameter option list \<Rightarrow> tool_option list option" where
  "convertParameters n l h [] = Some []"
| "convertParameters n l h (None # ps) = convertParameters n l h ps"
| "convertParameters n l h (Some param # ps) =
     (case convertParameter n l h param of None \<Rightarrow> None
      | Some arg \<Rightarrow>
         (case convertParameters n l h ps of None \<Rightarrow> None
          | Some args \<Rightarrow> Some (arg # args)))"

text \<open>The body of the loop of \<^verbatim>\<open>convertRequestBody\<close> for one media type with a schema.\<close>

definition convertMediaType :: "nat \<Rightarrow> heap \<Rightarrow> request_body \<Rightarrow> schema \<Rightarrow> tool_option option" where
  "convertMediaType n h requestBody schema =
     (let propertyOptions =
            (if rb_Description requestBody \<noteq> [] then [mcp_Description (rb_Description requestBody)] else []) @
            (if rb_Required requestBody then [mcp_Required] else []);
          typed =
            (if Type schema \<noteq> None then
               (case arrayItems schema of
                  Some ip \<Rightarrow>
                    (case processSchemaItems n h ip {} of None \<Rightarrow> None
                     | Some (item, _) \<Rightarrow> Some (PropertyTypeArray, propertyOptions @ [mcp_Items item]))
                | None \<Rightarrow>
                if Is schema ''object'' \<or> Properties schema \<noteq> [] then
                  (case processSchemaProperties n h schema {} of None \<Rightarrow> None
                   | Some (obj, _) \<Rightarrow> Some (PropertyTypeObject, propertyOptions @ [mcp_Properties obj]))
                else if Is schema ''string'' then Some (PropertyTypeString, propertyOptions)
                else if Is schema ''integer'' then Some (PropertyTypeInteger, propertyOptions)
                else if Is schema ''number'' then Some (PropertyTypeNumber, propertyOptions)
                else if Is schema ''boolean'' then Some (PropertyTypeBoolean, propertyOptions)
                else Some (PropertyTypeObject, propertyOptions))
             else Some (PropertyTypeObject, propertyOptions))
      in (case typed of None \<Rightarrow> None
          | Some (t, opts) \<Rightarrow> Some (createToolOption t ''body'' opts)))"

fun convertContent :: "nat \<Rightarrow> heap \<Rightarrow> request_body \<Rightarrow> (string \<times> media_type) list \<Rightarrow> tool_option list option" where
  "convertContent n h requestBody [] = Some []"
| "convertContent n h requestBody ((contentType, mediaType) # ms) =
     (case mt_Schema mediaType of
        None \<Rightarrow> convertContent n h requestBody ms
      | Some sp \<Rightarrow>
         (case convertMediaType n h requestBody (h sp) of None \<Rightarrow> None
          | Some arg \<Rightarrow>
             (case convertContent n h requestBody ms of None \<Rightarrow> None
              | Some args \<Rightarrow> Some (arg # args))))"

definition convertRequestBody :: "nat \<Rightarrow> heap \<Rightarrow> request_body \<Rightarrow> tool_option list option" where
  "convertRequestBody n h requestBody = convertContent n h requestBody (rb_Content requestBody)"

subsection \<open>Security requirements\<close>

definition securitySchemeArgs :: "string \<Rightarrow> string list \<Rightarrow> security_scheme \<Rightarrow> tool_option list" where
  "securitySchemeArgs schemeName scopes scheme =
     (if ss_Type scheme = ''apiKey'' then
        [WithString (''openapi|auth_'' @ schemeName)
           [mcp_Description (''API Key for '' @ schemeName @ '' authentication (in '' @ ss_In scheme @
              '' named '' @ [CHR 0x27] @ ss_Name scheme @ [CHR 0x27] @ '')''),
            mcp_Required]]
      else if ss_Type scheme = ''http'' then
        (if ss_Scheme scheme = ''basic'' then
           [WithString ''openapi|auth_username''
              [mcp_Description ''Username for Basic authentication'', mcp_Required],
            WithString ''openapi|auth_password''
              [mcp_Description ''Password for Basic authentication'', mcp_Required]]
         else if ss_Scheme scheme = ''bearer'' then
           [WithString ''openapi|auth_token''
              [mcp_Description ''Bearer token for authentication'', mcp_Required]]
         else [])
      else if ss_Type scheme = ''oauth2'' then
        (if scopes \<noteq> [] then
           [WithString ''openapi|auth_oauth2_token''
              [mcp_Description (''OAuth2 token with scopes: '' @ Join scopes '', ''), mcp_Required]]
         else
           [WithString ''openapi|auth_oauth2_token''
              [mcp_Description ''OAuth2 token for authentication'', mcp_Required]])
      else [])"

definition convertSecurityRequirements :: "document \<Rightarrow> (string \<times> string list) list list \<Rightarrow> tool_option list" where
  "convertSecurityRequirements doc securityRequirements =
     (case Components doc of
        None \<Rightarrow> []
      | Some comps \<Rightarrow>
          if length (SecuritySchemes comps) = 0 then []
          else concat (map (\<lambda>requirement.
                 concat (map (\<lambda>(schemeName, scopes).
                    case map_of (SecuritySchemes comps) schemeName of
                      Some (Some scheme) \<Rightarrow> securitySchemeArgs schemeName scopes scheme
                    | _ \<Rightarrow> []) requirement)) securityRequirements))"

subsection \<open>Server address argument\<close>

text \<open>The server-address block of \<^verbatim>\<open>convertOperation\<close>: the option it appends.\<close>

definition serverAddrOption :: "server list \<Rightarrow> tool_option" where
  "serverAddrOption servers =
     (if length servers = 0 then
        WithString ''openapi|server_addr''
          [mcp_Description ''Server address to connect to'', mcp_Required]
      else if length servers = 1 then
        WithString ''openapi|server_addr''
          [mcp_Description ''Server address to connect to'',
           mcp_DefaultString (URL (servers ! 0)),
           mcp_Enum (map URL servers)]
      else
        WithString ''openapi|server_addr''
          [mcp_Description ''Server address to connect to'',
           mcp_Required,
           mcp_Enum (map URL servers)])"

subsection \<open>Description\<close>

definition getDescription :: "operation \<Rightarrow> string" where
  "getDescription operation =
     Join ((if Summary operation \<noteq> [] then [Summary operation] else []) @
           (if op_Description operation \<noteq> [] then [op_Description operation] else []) @
           (if op_Deprecated operation then [''WARNING: This operation is deprecated.''] else []))
          [CHR 0x0A, CHR 0x0A]"

text \<open>
  \<^verbatim>\<open>generateResponseDescription\<close>. \<open>extensionPart\<close> is the block for the \<^verbatim>\<open>schema\<close>
  extension of a response: \<open>Some None\<close> is its \<^verbatim>\<open>continue\<close>, which drops the response.
  The description of a response is dereferenced unchecked.
\<close>

definition extensionPart :: "nat \<Rightarrow> lib \<Rightarrow> heap \<Rightarrow> response \<Rightarrow> string option option" where
  "extensionPart n l h response =
     (case resp_ExtensionSchema response of
        JObj rawSchema \<Rightarrow>
          (if rawSchema \<noteq> [] then
             (case jsonMarshal l (JObj rawSchema) of
                Inl err \<Rightarrow> Some None
              | Inr jsonStr \<Rightarrow>
                 (case unmarshalSchema l jsonStr of
                    Inl err \<Rightarrow> Some None
                  | Inr sp \<Rightarrow>
                     (case processSchemaProperty n h sp {} of
                        None \<Rightarrow> None
                      | Some (property, _) \<Rightarrow>
                         (case jsonMarshal l property of
                            Inl err \<Rightarrow> Some None
                          | Inr str \<Rightarrow> Some (Some ('', schema: '' @ str))))))
           else Some (Some []))
      | _ \<Rightarrow> Some (Some []))"

fun contentPart :: "nat \<Rightarrow> lib \<Rightarrow> heap \<Rightarrow> (string \<times> media_type) list \<Rightarrow> string \<Rightarrow> string option" where
  "contentPart n l h [] desc = Some desc"
| "contentPart n l h ((contentType, mediaType) # ms) desc =
     (case mt_Schema mediaType of
        None \<Rightarrow> contentPart n l h ms desc
      | Some sp \<Rightarrow>
         (case processSchemaProperty n h sp {} of
            None \<Rightarrow> None
          | Some (property, _) \<Rightarrow>
             (case jsonMarshal l property of
                Inl err \<Rightarrow> contentPart n l h ms desc
              | Inr str \<Rightarrow>
                 contentPart n l h ms (desc @ '', content type: '' @ contentType @ '', schema: '' @ str))))"

fun responseDescriptions :: "nat \<Rightarrow> lib \<Rightarrow> heap \<Rightarrow> (string \<times> response option) list \<Rightarrow> string list
    \<Rightarrow> (error + string list) option" where
  "responseDescriptions n l h [] acc = Some (Inr acc)"
| "responseDescriptions n l h ((code, None) # rs) acc = responseDescriptions n l h rs acc"
| "responseDescriptions n l h ((code, Some response) # rs) acc =
     (case resp_Description response of
        None \<Rightarrow> Some (Inl (Panic ''invalid memory address or nil pointer dereference''))
      | Some d \<Rightarrow>
         (case extensionPart n l h response of
            None \<Rightarrow> None
          | Some None \<Rightarrow> responseDescriptions n l h rs acc
          | Some (Some ext) \<Rightarrow>
             (case contentPart n l h (resp_Content response)
                     (''- status: '' @ code @ '', description: '' @ d @ ext) of
                None \<Rightarrow> None
              | Some desc \<Rightarrow> responseDescriptions n l h rs (acc @ [desc]))))"

definition generateResponseDescription :: "nat \<Rightarrow> lib \<Rightarrow> heap \<Rightarrow> (string \<times> response option) list
    \<Rightarrow> (error + string) option" where
  "generateResponseDescription n l h responses =
     (case responseDescriptions n l h responses [] of
        None \<Rightarrow> None
      | Some (Inl e) \<Rightarrow> Some (Inl e)
      | Some (Inr ds) \<Rightarrow> Some (Inr (Join ds [CHR 0x0A, CHR 0x0A])))"

subsection \<open>Tool builder\<close>

text \<open>
  \<^verbatim>\<open>convertOperation\<close>. \<open>None\<close>: a schema walk did not return within depth \<open>n\<close>;
  \<open>Some (Inl e)\<close>: the conversion panicked (the security block dereferences the
  document unchecked, the response block the description of a response).
\<close>

definition convertOperation :: "nat \<Rightarrow> lib \<Rightarrow> heap \<Rightarrow> Converter \<Rightarrow> string \<Rightarrow> string \<Rightarrow> operation
    \<Rightarrow> (error + tool) option" where
  "convertOperation n l h c path method operation =
     (let toolName0 = GetOperationID path method operation;
          toolName = (if ToolNamePrefix (options c) \<noteq> [] then ToolNamePrefix (options c) @ toolName0
                      else toolName0)
      in case convertParameters n l h (Parameters operation) of
           None \<Rightarrow> None
         | Some paramArgs \<Rightarrow>
            (case (case RequestBody operation of None \<Rightarrow> Some []
                   | Some requestBody \<Rightarrow> convertRequestBody n h requestBody) of
               None \<Rightarrow> None
             | Some bodyArgs \<Rightarrow>
                (let servers = GetServers (parser c);
                     args = paramArgs @ bodyArgs @ [serverAddrOption servers]
                 in case (case Security operation of
                            None \<Rightarrow> Inr []
                          | Some reqs \<Rightarrow>
                              if length reqs > 0 then
                                (case parser c of
                                   None \<Rightarrow> Inl (Panic ''invalid memory address or nil pointer dereference'')
                                 | Some doc \<Rightarrow> Inr (convertSecurityRequirements doc reqs))
                              else Inr []) of
                      Inl e \<Rightarrow> Some (Inl e)
                    | Inr securityArgs \<Rightarrow>
                       (case (case Responses operation of None \<Rightarrow> Some (Inr [])
                              | Some responses \<Rightarrow> generateResponseDescription n l h responses) of
                          None \<Rightarrow> None
                        | Some (Inl e) \<Rightarrow> Some (Inl e)
                        | Some (Inr responseDesc) \<Rightarrow>
                           (let description =
                                  getDescription operation @
                                  (if responseDesc \<noteq> [] then
                                     [CHR 0x0A, CHR 0x0A] @ ''Responses:'' @ [CHR 0x0A, CHR 0x0A] @ responseDesc
                                   else [])
                            in Some (Inr \<lparr>tool_Name = toolName,
                                          tool_Options =
                                            args @ securityArgs @ [WithDescription description]\<rparr>))))))"

section \<open>The request invoker\<close>

text \<open>
  The argument bag of a call (\<^verbatim>\<open>map[string]interface{}\<close>), in the order in which
  \<^verbatim>\<open>getArgs\<close> happens to range over it, and the demultiplexed arguments. The maps of
  the arguments are association lists, and the loops of the handler range over them in
  the order of the list, where Go may take any order.
\<close>

type_synonym bag = "(string \<times> jvalue) list"

record Args =
  ServerAddr :: string
  AuthToken :: string
  AuthUsername :: string
  AuthPassword :: string
  AuthOAuth2Token :: string
  Headers :: "(string \<times> jvalue) list"
  Body :: jvalue
  Query :: "(string \<times> jvalue) list"
  Path :: "(string \<times> jvalue) list"
  Forms :: "(string \<times> jvalue) list"

text \<open>
  The unchecked type assertion \<^verbatim>\<open>v.(string)\<close>, followed by the assignment \<open>f\<close>: a
  value of any other dynamic type (nil too) makes the assertion panic.
\<close>

definition isString :: "jvalue \<Rightarrow> bool" where
  "isString v = (case v of JStr str \<Rightarrow> True | _ \<Rightarrow> False)"

definition typeAssertionPanic :: error where
  "typeAssertionPanic = Panic ''interface conversion: interface {} is not string''"

definition assertString :: "jvalue \<Rightarrow> (string \<Rightarrow> 'a) \<Rightarrow> error + 'a" where
  "assertString v f = (case v of JStr str \<Rightarrow> Inr (f str) | _ \<Rightarrow> Inl typeAssertionPanic)"

text \<open>One iteration of the loop of \<^verbatim>\<open>getArgs\<close>.\<close>

definition getArgsEntry :: "string \<Rightarrow> jvalue \<Rightarrow> Args \<Rightarrow> error + Args" where
  "getArgsEntry k v arg =
     (if HasPrefix k ''openapi|'' then
        (let sub = TrimPrefix k ''openapi|'' in
         if sub = ''server_addr'' then assertString v (\<lambda>str. arg\<lparr>ServerAddr := str\<rparr>)
         else if sub = ''auth_token'' then assertString v (\<lambda>str. arg\<lparr>AuthToken := str\<rparr>)
         else if sub = ''auth_username'' then assertString v (\<lambda>str. arg\<lparr>AuthUsername := str\<rparr>)
         else if sub = ''auth_password'' then assertString v (\<lambda>str. arg\<lparr>AuthPassword := str\<rparr>)
         else if sub = ''auth_oauth2_token'' then assertString v (\<lambda>str. arg\<lparr>AuthOAuth2Token := str\<rparr>)
         else assertString v (\<lambda>str. arg\<lparr>AuthToken := str\<rparr>))
      else if k = ''body'' then Inr (arg\<lparr>Body := v\<rparr>)
      else if HasPrefix k ''query|'' then
        Inr (arg\<lparr>Query := AList.update (TrimPrefix k ''query|'') v (Query arg)\<rparr>)
      else if HasPrefix k ''path|'' then
        Inr (arg\<lparr>Path := AList.update (TrimPrefix k ''path|'') v (Path arg)\<rparr>)
      else if HasPrefix k ''header|'' then
        Inr (arg\<lparr>Headers := AList.update (TrimPrefix k ''header|'') v (Headers arg)\<rparr>)
      else if HasPrefix k ''formData|'' then
        Inr (arg\<lparr>Forms := AList.update (TrimPrefix k ''formData|'') v (Forms arg)\<rparr>)
      else Inr arg)"

text \<open>The keys for which the \<^verbatim>\<open>switch\<close> of \<^verbatim>\<open>getArgs\<close> has a case.\<close>

definition recognisedKey :: "string \<Rightarrow> bool" where
  "recognisedKey k =
     (HasPrefix k ''openapi|'' \<or> k = ''body'' \<or> HasPrefix k ''query|'' \<or> HasPrefix k ''path|'' \<or>
      HasPrefix k ''header|'' \<or> HasPrefix k ''formData|'')"

fun getArgsLoop :: "bag \<Rightarrow> Args \<Rightarrow> error + Args" where
  "getArgsLoop [] arg = Inr arg"
| "getArgsLoop ((k, v) # rest) arg =
     (case getArgsEntry k v arg of Inl e \<Rightarrow> Inl e | Inr arg' \<Rightarrow> getArgsLoop rest arg')"

definition getArgs :: "bag \<Rightarrow> error + Args" where
  "getArgs args = getArgsLoop args
     \<lparr>ServerAddr = [], AuthToken = [], AuthUsername = [], AuthPassword = [], AuthOAuth2Token = [],
      Headers = [], Body = JNull, Query = [], Path = [], Forms = []\<rparr>"

text \<open>
  The closure that \<^verbatim>\<open>newHandler\<close> returns, in the order of its blocks: the full URL
  with the query string, the request with its headers, content type and
  authentication, the form data, the call and the result text.
\<close>

definition buildURL :: "lib \<Rightarrow> string \<Rightarrow> string \<Rightarrow> Args \<Rightarrow> error + url" where
  "buildURL l serverURL path arg =
     (let finalPath = fold (\<lambda>(paramName, paramValue) p.
                         ReplaceAll p (''{'' @ paramName @ ''}'') (sprintv l paramValue)) (Path arg) path
      in case JoinPath l serverURL finalPath of
           Inl err \<Rightarrow> Inl (Error (''failed to join URL path '' @ '': '' @ err))
         | Inr fullURL \<Rightarrow>
            (case urlParse l fullURL of
               Inl err \<Rightarrow> Inl (Error (''failed to parse URL '' @ fullURL @ '': '' @ err))
             | Inr parsedURL \<Rightarrow>
                Inr (if length (Query arg) > 0 then
                       parsedURL\<lparr>RawQuery := valuesEncode l
                         (fold (\<lambda>(key, value) q. valuesAdd q key (sprintv l value))
                            (Query arg) (urlQuery l parsedURL))\<rparr>
                     else parsedURL)))"

definition applyAuth :: "lib \<Rightarrow> Args \<Rightarrow> (string \<times> string list) list \<Rightarrow> (string \<times> string list) list" where
  "applyAuth l arg header =
     (if AuthToken arg \<noteq> [] then
        headerSet l header ''Authorization'' (''Bearer '' @ AuthToken arg)
      else if AuthUsername arg \<noteq> [] \<and> AuthPassword arg \<noteq> [] then
        headerSet l header ''Authorization''
          (''Basic '' @ basicAuthValue l (AuthUsername arg) (AuthPassword arg))
      else if AuthOAuth2Token arg \<noteq> [] then
        headerSet l header ''Authorization'' (''Bearer '' @ AuthOAuth2Token arg)
      else header)"

fun formValues :: "lib \<Rightarrow> (string \<times> jvalue) list \<Rightarrow> (string \<times> string list) list
    \<Rightarrow> error + (string \<times> string list) list" where
  "formValues l [] formData = Inr formData"
| "formValues l ((key, value) # fs) formData =
     (case value of
        JObj m \<Rightarrow>
          (case jsonMarshal l (JObj m) of
             Inl err \<Rightarrow> Inl (Error err)
           | Inr jsonStr \<Rightarrow> formValues l fs (valuesAdd formData key jsonStr))
      | _ \<Rightarrow> formValues l fs (valuesAdd formData key (sprintv l value)))"

definition addHeaders :: "lib \<Rightarrow> (string \<times> jvalue) list \<Rightarrow> (string \<times> string list) list" where
  "addHeaders l headers = fold (\<lambda>(key, value) hd. headerAdd l hd key (sprintv l value)) headers []"

definition buildRequest :: "lib \<Rightarrow> string \<Rightarrow> string \<Rightarrow> string \<Rightarrow> Args \<Rightarrow> error + http_request" where
  "buildRequest l serverURL path method arg =
     (case buildURL l serverURL path arg of
        Inl e \<Rightarrow> Inl e
      | Inr parsedURL \<Rightarrow>
         (case (if Body arg \<noteq> JNull then
                  (case jsonMarshal l (Body arg) of
                     Inl err \<Rightarrow> Inl (Error (''failed to marshal request body: '' @ err))
                   | Inr bodyBytes \<Rightarrow> Inr (Some bodyBytes))
                else Inr None) of
            Inl e \<Rightarrow> Inl e
          | Inr reqBody \<Rightarrow>
             (case NewRequestError l (ToUpper method) (urlString l parsedURL) of
                Some err \<Rightarrow> Inl (Error (''failed to create HTTP request: '' @ err))
              | None \<Rightarrow>
                 (let header0 = addHeaders l (Headers arg);
                      header1 = (if Body arg \<noteq> JNull
                                 then headerSet l header0 ''Content-Type'' ''application/json''
                                 else header0);
                      header2 = applyAuth l arg header1;
                      httpReq = \<lparr>req_Method = ToUpper method, req_URL = urlString l parsedURL,
                                 req_Header = header2, req_Body = reqBody\<rparr>
                  in if length (Forms arg) > 0 then
                       (case formValues l (Forms arg) [] of
                          Inl e \<Rightarrow> Inl e
                        | Inr formData \<Rightarrow>
                           Inr (httpReq\<lparr>req_Header := headerSet l header2 ''Content-Type''
                                                         ''application/x-www-form-urlencoded'',
                                        req_Body := Some (valuesEncode l formData)\<rparr>))
                     else Inr httpReq))))"

definition sendRequest :: "lib \<Rightarrow> http_request \<Rightarrow> error + string" where
  "sendRequest l httpReq =
     (case clientDo l httpReq of
        Inl err \<Rightarrow> Inl (Error (''request failed: '' @ err))
      | Inr resp \<Rightarrow>
         (case resp_Body resp of
            Inl err \<Rightarrow> Inl (Error (''read response error: '' @ err))
          | Inr result \<Rightarrow>
             Inr (''status code: '' @ decimal (StatusCode resp) @ [CHR 0x0A] @
                  ''response body: '' @ result)))"

text \<open>The part of the closure that precedes the call: the arguments, the server, the request.\<close>

definition handlerRequest :: "lib \<Rightarrow> server option \<Rightarrow> string \<Rightarrow> string \<Rightarrow> bag \<Rightarrow> error + http_request" where
  "handlerRequest l server path method arguments =
     (case getArgs arguments of
        Inl e \<Rightarrow> Inl e
      | Inr arg \<Rightarrow>
         (let serverURL = (case server of
                             Some srv \<Rightarrow> if ServerAddr arg = [] then URL srv else ServerAddr arg
                           | None \<Rightarrow> ServerAddr arg)
          in buildRequest l serverURL path method arg))"

definition newHandler :: "lib \<Rightarrow> server option \<Rightarrow> string \<Rightarrow> string \<Rightarrow> bag \<Rightarrow> error + string" where
  "newHandler l server path method arguments =
     (case handlerRequest l server path method arguments of
        Inl e \<Rightarrow> Inl e
      | Inr httpReq \<Rightarrow> sendRequest l httpReq)"

section \<open>Conversion of a document\<close>

definition getOperations :: "path_item \<Rightarrow> (string \<times> operation) list" where
  "getOperations pathItem =
     (case Get pathItem of None \<Rightarrow> [] | Some operation \<Rightarrow> [(''get'', operation)]) @
     (case Post pathItem of None \<Rightarrow> [] | Some operation \<Rightarrow> [(''post'', operation)]) @
     (case Put pathItem of None \<Rightarrow> [] | Some operation \<Rightarrow> [(''put'', operation)]) @
     (case Delete pathItem of None \<Rightarrow> [] | Some operation \<Rightarrow> [(''delete'', operation)]) @
     (case Options pathItem of None \<Rightarrow> [] | Some operation \<Rightarrow> [(''options'', operation)]) @
     (case Head pathItem of None \<Rightarrow> [] | Some operation \<Rightarrow> [(''head'', operation)]) @
     (case Patch pathItem of None \<Rightarrow> [] | Some operation \<Rightarrow> [(''patch'', operation)]) @
     (case Trace pathItem of None \<Rightarrow> [] | Some operation \<Rightarrow> [(''trace'', operation)])"

text \<open>The server that \<^verbatim>\<open>Convert\<close> binds into every handler.\<close>

definition handlerServer :: "server list \<Rightarrow> server option" where
  "handlerServer servers = (if length servers = 1 then Some (servers ! 0) else None)"

text \<open>A registered tool (its definition and its handler) and the server with its tools.\<close>

type_synonym registered = "tool \<times> (bag \<Rightarrow> error + string)"

record mcp_server =
  server_Name :: string
  server_Version :: string
  server_Tools :: "registered list"

fun convertOperations :: "nat \<Rightarrow> lib \<Rightarrow> heap \<Rightarrow> Converter \<Rightarrow> server option
    \<Rightarrow> (string \<times> string \<times> operation) list \<Rightarrow> (error + registered list) option" where
  "convertOperations n l h c server [] = Some (Inr [])"
| "convertOperations n l h c server ((path, method, operation) # rest) =
     (case convertOperation n l h c path method operation of
        None \<Rightarrow> None
      | Some (Inl e) \<Rightarrow> Some (Inl e)
      | Some (Inr t) \<Rightarrow>
         (case convertOperations n l h c server rest of
            None \<Rightarrow> None
          | Some (Inl e) \<Rightarrow> Some (Inl e)
          | Some (Inr ts) \<Rightarrow> Some (Inr ((t, newHandler l server path method) # ts))))"

text \<open>
  \<^verbatim>\<open>Convert\<close>. The errors of \<^verbatim>\<open>convertOperation\<close> and \<^verbatim>\<open>newHandler\<close> that it wraps
  are never returned by them.
\<close>

definition Convert :: "nat \<Rightarrow> lib \<Rightarrow> heap \<Rightarrow> Converter \<Rightarrow> (error + mcp_server) option" where
  "Convert n l h c =
     (case parser c of
        None \<Rightarrow> Some (Inl (Error ''no OpenAPI document loaded''))
      | Some doc \<Rightarrow>
         (case GetInfo (parser c) of
            None \<Rightarrow> Some (Inl (Error ''no info found in OpenAPI document''))
          | Some info \<Rightarrow>
             (case convertOperations n l h c (handlerServer (GetServers (parser c)))
                     (concat (map (\<lambda>(path, pathItem).
                        map (\<lambda>(method, operation). (path, method, operation)) (getOperations pathItem))
                        (GetPaths (parser c)))) of
                None \<Rightarrow> None
              | Some (Inl e) \<Rightarrow> Some (Inl e)
              | Some (Inr tools) \<Rightarrow>
                 Some (Inr \<lparr>server_Name = (if ServerName (options c) = [] then info_Title info
                                            else ServerName (options c)),
                            server_Version = (if Version (options c) = [] then info_Version info
                                               else Version (options c)),
                            server_Tools = tools\<rparr>))))"

section \<open>Example inputs\<close>

text \<open>The zero value of \<^verbatim>\<open>openapi3.Schema\<close>.\<close>

definition emptySchema :: schema where
  "emptySchema = \<lparr>Type = None, Title = [], Description = [], Default = JNull, Example = JNull,
     Enum = [], Format = [], OneOf = [], AnyOf = [], AllOf = [], Not' = None,
     Nullable = False, ReadOnly = False, WriteOnly = False, Deprecated = False,
     AllowEmptyValue = False, UniqueItems = False, ExclusiveMin = False, ExclusiveMax = False,
     Min' = None, Max' = None, MultipleOf = None, MinLength = 0, MaxLength = None, Pattern = [],
     MinItems = 0, MaxItems = None, MinProps = 0, MaxProps = None, Required = [],
     AdditionalProperties_Has = None, AdditionalProperties_Schema = None, Discriminator = None,
     Properties = [], Items = None, ExternalDocs = None, XML = None\<rparr>"

definition emptyOperation :: operation where
  "emptyOperation = \<lparr>OperationID = [], Summary = [], op_Description = [], op_Deprecated = False,
     Parameters = [], RequestBody = None, Security = None, Responses = None\<rparr>"

text \<open>
  A stand-in for the library, for running the model on examples. It follows the Go
  functions on the inputs of the examples: values are encoded as compact JSON, strings
  print as they are, a path is joined to a base by concatenation (and is stripped of its
  leading slash when the base is empty), form values are query-escaped, header keys
  are kept as written, the basic credential is the base64 encoding of user name, colon
  and password, and the client answers 200 to an \<^verbatim>\<open>http\<close> or \<^verbatim>\<open>https\<close> URL and
  rejects any other with the error of \<^verbatim>\<open>net/http\<close>.
\<close>

definition quoteJSON :: "string \<Rightarrow> string" where
  "quoteJSON str = [CHR 0x22] @ str @ [CHR 0x22]"

fun encodeJSON :: "jvalue \<Rightarrow> string" where
  "encodeJSON JNull = ''null''"
| "encodeJSON (JBool b) = (if b then ''true'' else ''false'')"
| "encodeJSON (JUInt n) = decimalNat n"
| "encodeJSON (JFloat r) = decimal (floor r)"
| "encodeJSON (JStr str) = quoteJSON str"
| "encodeJSON (JArr vs) = ''['' @ Join (map encodeJSON vs) '','' @ '']''"
| "encodeJSON (JObj kvs) =
     ''{'' @ Join (map (\<lambda>kv. quoteJSON (fst kv) @ '':'' @ encodeJSON (snd kv)) kvs) '','' @ ''}''"

definition base64Alphabet :: string where
  "base64Alphabet = ''ABCDEFGHIJKLMNOPQRSTUVWXYZabcdefghijklmnopqrstuvwxyz0123456789+/''"

fun base64 :: "nat list \<Rightarrow> string" where
  "base64 [] = []"
| "base64 [a] = [base64Alphabet ! (a div 4), base64Alphabet ! ((a mod 4) * 16), CHR ''='', CHR ''='']"
| "base64 [a, b] =
     [base64Alphabet ! (a div 4), base64Alphabet ! ((a mod 4) * 16 + b div 16),
      base64Alphabet ! ((b mod 16) * 4), CHR ''='']"
| "base64 (a # b # c # rest) =
     [base64Alphabet ! (a div 4), base64Alphabet ! ((a mod 4) * 16 + b div 16),
      base64Alphabet ! ((b mod 16) * 4 + c div 64), base64Alphabet ! (c mod 64)] @ base64 rest"

definition queryEscape :: "string \<Rightarrow> string" where
  "queryEscape str = concat (map (\<lambda>c.
     let n = of_char c :: nat in
     if (48 \<le> n \<and> n \<le> 57) \<or> (65 \<le> n \<and> n \<le> 90) \<or> (97 \<le> n \<and> n \<le> 122) \<or>
        c \<in> set ''-_.~'' then [c]
     else if c = CHR '' '' then ''+''
     else [CHR ''%'', ''0123456789ABCDEF'' ! (n div 16), ''0123456789ABCDEF'' ! (n mod 16)]) str)"

definition exampleLib :: lib where
  "exampleLib = \<lparr>
     sprintv = (\<lambda>v. case v of JStr str \<Rightarrow> str | _ \<Rightarrow> encodeJSON v),
     jsonMarshal = (\<lambda>v. Inr (encodeJSON v)),
     unmarshalSchema = (\<lambda>str. Inl ''unexpected end of JSON input''),
     JoinPath = (\<lambda>base elem. Inr (if base = [] then dropWhile (\<lambda>c. c = CHR ''/'') elem else base @ elem)),
     urlParse = (\<lambda>rawURL. Inr \<lparr>url_Rest = rawURL, RawQuery = []\<rparr>),
     urlQuery = (\<lambda>u. []),
     valuesEncode = (\<lambda>vs. Join (concat (map (\<lambda>(k, xs).
                        map (\<lambda>x. queryEscape k @ ''='' @ queryEscape x) xs) vs)) ''&''),
     urlString = (\<lambda>u. if RawQuery u = [] then url_Rest u else url_Rest u @ ''?'' @ RawQuery u),
     NewRequestError = (\<lambda>method rawURL. None),
     CanonicalHeaderKey = (\<lambda>k. k),
     basicAuthValue = (\<lambda>username password. base64 (map of_char (username @ '':'' @ password))),
     clientDo = (\<lambda>req.
        if HasPrefix (req_URL req) ''http://'' \<or> HasPrefix (req_URL req) ''https://'' then
          Inr \<lparr>StatusCode = 200, resp_Body = Inr ''ok''\<rparr>
        else
          Inl ((case req_Method req of [] \<Rightarrow> [] | c # cs \<Rightarrow> c # ToLower cs) @ '' '' @
               quoteJSON (req_URL req) @ '': unsupported protocol scheme '' @ quoteJSON []))\<rparr>"

definition exampleServer :: server where
  "exampleServer = \<lparr>URL = ''https://api.example.com''\<rparr>"

text \<open>
  Schema graphs. In \<open>siblingHeap\<close> the two properties of the schema at 0 refer to the
  schema \<^verbatim>\<open>User\<close> at 1; \<open>userDescriptor\<close> is the descriptor of \<^verbatim>\<open>User\<close>. In
  \<open>untitledLoopHeap\<close> an untitled object has itself as a property; in \<open>itemsLoopHeap\<close>
  the titled \<^verbatim>\<open>Node\<close> has an array of \<^verbatim>\<open>Node\<close> as a property; in \<open>titledLoopHeap\<close>
  the titled \<^verbatim>\<open>Node\<close> has an array of strings and itself as properties, and
  \<open>titledLoopNodes\<close> are the entries of its walk, ranked by \<open>titledLoopRank\<close>.
\<close>

definition siblingHeap :: "(string \<times> ref) list \<Rightarrow> heap" where
  "siblingHeap props = (\<lambda>p. emptySchema)
     (0 := emptySchema\<lparr>Type := Some [''object''], Properties := props\<rparr>,
      1 := emptySchema\<lparr>Type := Some [''object''], Title := ''User'',
             Properties := [(''name'', Some 2)]\<rparr>,
      2 := emptySchema\<lparr>Type := Some [''string'']\<rparr>)"

definition userDescriptor :: jvalue where
  "userDescriptor = JObj
     [(''type'', JArr [JStr ''object'']), (''title'', JStr ''User''),
      (''properties'', JObj [(''name'', JObj [(''type'', JArr [JStr ''string''])])])]"

text \<open>Converters for documents with no, one and two servers.\<close>

definition oneServer :: Converter where
  "oneServer = \<lparr>parser = Some \<lparr>Info = Some \<lparr>info_Title = ''Pets'', info_Version = ''1''\<rparr>,
       Servers = [exampleServer], Components = None, Paths = []\<rparr>,
     options = \<lparr>ServerName = [], Version = [], ToolNamePrefix = []\<rparr>\<rparr>"











definition petIdArgs :: Args where
  "petIdArgs = \<lparr>ServerAddr = [], AuthToken = [], AuthUsername = [], AuthPassword = [],
     AuthOAuth2Token = [], Headers = [], Body = JNull, Query = [], Path = [(''id'', JStr ''42'')],
     Forms = []\<rparr>"

definition serverAddrArguments :: bag where
  "serverAddrArguments = [(''openapi|server_addr'', JStr ''http://localhost:8080''), (''path|id'', JStr ''42'')]"

definition serverAddrArgs :: Args where
  "serverAddrArgs = \<lparr>ServerAddr = ''http://localhost:8080'', AuthToken = [], AuthUsername = [],
     AuthPassword = [], AuthOAuth2Token = [], Headers = [], Body = JNull, Query = [],
     Path = [(''id'', JStr ''42'')], Forms = []\<rparr>"




section \<open>Properties of the request invoker\<close>

subsection \<open>Headers and the argument bag\<close>



lemma assertString_cases:
  "assertString v f = (if isString v then Inr (f (case v of JStr str \<Rightarrow> str | _ \<Rightarrow> [])) else Inl typeAssertionPanic)"
  by (cases v) (simp_all add: assertString_def isString_def)

lemma getArgsEntry_Inl_iff:
  "getArgsEntry k v arg = Inl e \<longleftrightarrow> HasPrefix k ''openapi|'' \<and> \<not> isString v \<and> e = typeAssertionPanic"
  by (auto simp add: getArgsEntry_def assertString_cases Let_def)

lemma getArgsLoop_panic:
  "\<exists>(k, v)\<in>set args. HasPrefix k ''openapi|'' \<and> \<not> isString v \<Longrightarrow>
   getArgsLoop args arg = Inl typeAssertionPanic"
proof (induction args arbitrary: arg)
  case Nil
  then show ?case by simp
next
  case (Cons kv rest)
  obtain k v where kv: "kv = (k, v)" by (cases kv)
  show ?case
  proof (cases "getArgsEntry k v arg")
    case (Inl e)
    then have "e = typeAssertionPanic"
      using getArgsEntry_Inl_iff [of k v arg e] by simp
    with Inl kv show ?thesis by simp
  next
    case (Inr arg')
    then have "\<not> (HasPrefix k ''openapi|'' \<and> \<not> isString v)"
      using getArgsEntry_Inl_iff [of k v arg typeAssertionPanic] by auto
    with Cons.prems kv have "\<exists>(k, v)\<in>set rest. HasPrefix k ''openapi|'' \<and> \<not> isString v"
      by auto
    from Cons.IH [OF this] show ?thesis using kv Inr by simp
  qed
qed

lemma getArgsLoop_total:
  "\<forall>(k, v)\<in>set args. HasPrefix k ''openapi|'' \<longrightarrow> isString v \<Longrightarrow>
   \<exists>arg'. getArgsLoop args arg = Inr arg'"
proof (induction args arbitrary: arg)
  case Nil
  then show ?case by simp
next
  case (Cons kv rest)
  obtain k v where kv: "kv = (k, v)" by (cases kv)
  from Cons.prems kv have "\<not> (HasPrefix k ''openapi|'' \<and> \<not> isString v)" by auto
  then obtain arg' where "getArgsEntry k v arg = Inr arg'"
    using getArgsEntry_Inl_iff [of k v arg] by (cases "getArgsEntry k v arg") auto
  moreover have "\<exists>a. getArgsLoop rest arg' = Inr a"
    using Cons.IH Cons.prems by auto
  ultimately show ?case using kv by auto
qed

lemma getArgsLoop_append:
  "getArgsLoop (xs @ ys) arg = (case getArgsLoop xs arg of Inl e \<Rightarrow> Inl e | Inr a \<Rightarrow> getArgsLoop ys a)"
  by (induction xs arbitrary: arg) (auto split: sum.splits)

lemma getArgsEntry_unrecognised: "\<not> recognisedKey k \<Longrightarrow> getArgsEntry k v arg = Inr arg"
  by (simp add: getArgsEntry_def recognisedKey_def)

lemma getArgsLoop_ignore:
  "\<not> recognisedKey k \<Longrightarrow> getArgsLoop (pre @ (k, v) # post) arg = getArgsLoop (pre @ post) arg"
  by (simp add: getArgsLoop_append getArgsEntry_unrecognised split: sum.splits)

text \<open>
  Claim C10. \<^verbatim>\<open>getArgs\<close> asserts the value of every \<^verbatim>\<open>openapi|\<close> key to be a string
  without checking: a bag with such a key and a value of another type makes it panic,
  and the handler panics with it instead of returning an error; a bag whose
  \<^verbatim>\<open>openapi|\<close> values are all strings is demultiplexed; and an entry whose key matches
  no case of the switch leaves no trace in the result.
\<close>

theorem getArgs_total_only_on_strings:
  "((\<exists>(k, v)\<in>set args. HasPrefix k ''openapi|'' \<and> \<not> isString v) \<longrightarrow>
      getArgs args = Inl typeAssertionPanic \<and>
      newHandler l server path method args = Inl typeAssertionPanic) \<and>
   ((\<forall>(k, v)\<in>set args. HasPrefix k ''openapi|'' \<longrightarrow> isString v) \<longrightarrow>
      (\<exists>arg. getArgs args = Inr arg)) \<and>
   (\<not> recognisedKey key \<longrightarrow>
      getArgs (pre @ (key, value) # post) = getArgs (pre @ post))"
  by (auto simp add: getArgs_def newHandler_def handlerRequest_def getArgsLoop_panic
      getArgsLoop_ignore intro: getArgsLoop_total)

theorem getArgs_total_only_on_strings_witness:
  "getArgs [(''path|id'', JStr ''42''), (''openapi|server_addr'', JUInt 8080)] = Inl typeAssertionPanic \<and>
   newHandler exampleLib None ''/pets/{id}'' ''get''
     [(''path|id'', JStr ''42''), (''openapi|server_addr'', JUInt 8080)] = Inl typeAssertionPanic \<and>
   (\<exists>arg. getArgs [(''openapi|server_addr'', JStr ''http://localhost''), (''query|limit'', JUInt 5)] = Inr arg) \<and>
   getArgs ([(''path|id'', JStr ''42'')] @ (''cookie|sid'', JUInt 7) # [(''body'', JNull)]) =
     getArgs ([(''path|id'', JStr ''42'')] @ [(''body'', JNull)])"
proof -
  have a: "\<exists>(k, v)\<in>set [(''path|id'', JStr ''42''), (''openapi|server_addr'', JUInt 8080)].
             HasPrefix k ''openapi|'' \<and> \<not> isString v"
    by (simp add: HasPrefix_def isString_def)
  have b: "\<forall>(k, v)\<in>set [(''openapi|server_addr'', JStr ''http://localhost''), (''query|limit'', JUInt 5)].
             HasPrefix k ''openapi|'' \<longrightarrow> isString v"
    by (simp add: HasPrefix_def isString_def)
  have c: "\<not> recognisedKey ''cookie|sid''"
    by (simp add: recognisedKey_def HasPrefix_def)
  show ?thesis
    using a b c
      getArgs_total_only_on_strings [of "[(''path|id'', JStr ''42''), (''openapi|server_addr'', JUInt 8080)]"
        exampleLib None "''/pets/{id}''" "''get''" "''cookie|sid''" "[(''path|id'', JStr ''42'')]" "JUInt 7" "[(''body'', JNull)]"]
      getArgs_total_only_on_strings [of "[(''openapi|server_addr'', JStr ''http://localhost''), (''query|limit'', JUInt 5)]"
        exampleLib None "''/pets/{id}''" "''get''" "''cookie|sid''" "[(''path|id'', JStr ''42'')]" "JUInt 7" "[(''body'', JNull)]"]
    by blast
qed

subsection \<open>Authentication\<close>







subsection \<open>Target server\<close>

lemma HasPrefix_TrimPrefix: "HasPrefix k pre \<Longrightarrow> k = pre @ TrimPrefix k pre"
  by (simp add: HasPrefix_def TrimPrefix_def) (metis append_take_drop_id)


lemma getArgsEntry_ServerAddr:
  assumes "getArgsEntry k v a = Inr a'"
  shows "ServerAddr a' =
     (if k = ''openapi|server_addr'' then (case v of JStr addr \<Rightarrow> addr | _ \<Rightarrow> []) else ServerAddr a)"
proof (cases "HasPrefix k ''openapi|''")
  case True
  from HasPrefix_TrimPrefix [OF True] obtain sub where k: "k = ''openapi|'' @ sub"
    by blast
  have t: "TrimPrefix k ''openapi|'' = sub"
    by (simp add: k TrimPrefix_def HasPrefix_def)
  have ks: "k = ''openapi|server_addr'' \<longleftrightarrow> sub = ''server_addr''"
    by (simp add: k)
  from assms True have "isString v"
    using getArgsEntry_Inl_iff [of k v a typeAssertionPanic] by (cases "isString v") auto
  then obtain str where v: "v = JStr str"
    by (cases v) (simp_all add: isString_def)
  have "getArgsEntry k v a =
     Inr (if sub = ''server_addr'' then a\<lparr>ServerAddr := str\<rparr>
          else if sub = ''auth_token'' then a\<lparr>AuthToken := str\<rparr>
          else if sub = ''auth_username'' then a\<lparr>AuthUsername := str\<rparr>
          else if sub = ''auth_password'' then a\<lparr>AuthPassword := str\<rparr>
          else if sub = ''auth_oauth2_token'' then a\<lparr>AuthOAuth2Token := str\<rparr>
          else a\<lparr>AuthToken := str\<rparr>)"
    unfolding getArgsEntry_def t Let_def v assertString_def
    using True by simp
  with assms have "a' = (if sub = ''server_addr'' then a\<lparr>ServerAddr := str\<rparr>
          else if sub = ''auth_token'' then a\<lparr>AuthToken := str\<rparr>
          else if sub = ''auth_username'' then a\<lparr>AuthUsername := str\<rparr>
          else if sub = ''auth_password'' then a\<lparr>AuthPassword := str\<rparr>
          else if sub = ''auth_oauth2_token'' then a\<lparr>AuthOAuth2Token := str\<rparr>
          else a\<lparr>AuthToken := str\<rparr>)"
    by simp
  then show ?thesis
    unfolding ks v by simp
next
  case False
  then have "k \<noteq> ''openapi|server_addr''"
    by (auto simp add: HasPrefix_def)
  moreover from assms False have "ServerAddr a' = ServerAddr a"
    unfolding getArgsEntry_def by (simp split: if_splits) auto
  ultimately show ?thesis by simp
qed

lemma getArgsLoop_ServerAddr:
  "distinct (map fst args) \<Longrightarrow> getArgsLoop args a = Inr arg \<Longrightarrow>
   ServerAddr arg =
     (case map_of args ''openapi|server_addr'' of
        Some v \<Rightarrow> (case v of JStr addr \<Rightarrow> addr | _ \<Rightarrow> [])
      | None \<Rightarrow> ServerAddr a)"
proof (induction args arbitrary: a)
  case Nil
  then show ?case by simp
next
  case (Cons kv rest)
  obtain k v where kv: "kv = (k, v)" by (cases kv)
  from Cons.prems kv obtain a' where e: "getArgsEntry k v a = Inr a'" and r: "getArgsLoop rest a' = Inr arg"
    by (auto split: sum.splits)
  from Cons.prems have d: "distinct (map fst rest)" by simp
  show ?case
  proof (cases "k = ''openapi|server_addr''")
    case True
    with Cons.prems kv have "map_of rest ''openapi|server_addr'' = None"
      by (auto simp add: map_of_eq_None_iff)
    with Cons.IH [OF d r] getArgsEntry_ServerAddr [OF e] True kv show ?thesis by simp
  next
    case False
    with Cons.IH [OF d r] getArgsEntry_ServerAddr [OF e] kv show ?thesis
      by (simp split: option.splits)
  qed
qed

text \<open>
  Claim C5, as the code has it. The server URL of a call is the \<^verbatim>\<open>openapi|server_addr\<close>
  argument of the bag when that is a non-empty string; otherwise the URL of the document's server
  when the document declares exactly one; otherwise the empty string. The handler has no
  check of its own for the last case: it builds the request from the empty server URL
  and passes it to the HTTP client like any other.
\<close>

theorem server_resolution:
  assumes "getArgs arguments = Inr arg" and "distinct (map fst arguments)"
  shows "ServerAddr arg =
           (case map_of arguments ''openapi|server_addr'' of
              Some v \<Rightarrow> (case v of JStr addr \<Rightarrow> addr | _ \<Rightarrow> [])
            | None \<Rightarrow> []) \<and>
         newHandler l (handlerServer servers) path method arguments =
           (case buildRequest l
                   (if ServerAddr arg \<noteq> [] then ServerAddr arg
                    else if length servers = 1 then URL (servers ! 0)
                    else [])
                   path method arg of
              Inl e \<Rightarrow> Inl e
            | Inr httpReq \<Rightarrow> sendRequest l httpReq)"
proof -
  from assms(1) have "getArgsLoop arguments
     \<lparr>ServerAddr = [], AuthToken = [], AuthUsername = [], AuthPassword = [], AuthOAuth2Token = [],
      Headers = [], Body = JNull, Query = [], Path = [], Forms = []\<rparr> = Inr arg"
    by (simp add: getArgs_def)
  from getArgsLoop_ServerAddr [OF assms(2) this]
  have "ServerAddr arg =
           (case map_of arguments ''openapi|server_addr'' of
              Some v \<Rightarrow> (case v of JStr addr \<Rightarrow> addr | _ \<Rightarrow> [])
            | None \<Rightarrow> [])"
    by (simp split: option.splits)
  moreover from assms(1) have "newHandler l (handlerServer servers) path method arguments =
           (case buildRequest l
                   (if ServerAddr arg \<noteq> [] then ServerAddr arg
                    else if length servers = 1 then URL (servers ! 0)
                    else [])
                   path method arg of
              Inl e \<Rightarrow> Inl e
            | Inr httpReq \<Rightarrow> sendRequest l httpReq)"
    by (simp add: newHandler_def handlerRequest_def handlerServer_def)
  ultimately show ?thesis
    by (rule conjI)
qed



theorem server_resolution_witness:
  "getArgs [(''path|id'', JStr ''42'')] = Inr petIdArgs \<and>
   newHandler exampleLib (handlerServer [exampleServer]) ''/pets/{id}'' ''get'' [(''path|id'', JStr ''42'')] =
     (case buildRequest exampleLib ''https://api.example.com'' ''/pets/{id}'' ''get'' petIdArgs of
        Inl e \<Rightarrow> Inl e
      | Inr httpReq \<Rightarrow> sendRequest exampleLib httpReq) \<and>
   buildRequest exampleLib ''https://api.example.com'' ''/pets/{id}'' ''get'' petIdArgs =
     Inr \<lparr>req_Method = ''GET'', req_URL = ''https://api.example.com/pets/42'',
          req_Header = [], req_Body = None\<rparr> \<and>
   getArgs serverAddrArguments = Inr serverAddrArgs \<and>
   newHandler exampleLib (handlerServer [exampleServer]) ''/pets/{id}'' ''get'' serverAddrArguments =
     (case buildRequest exampleLib ''http://localhost:8080'' ''/pets/{id}'' ''get'' serverAddrArgs of
        Inl e \<Rightarrow> Inl e
      | Inr httpReq \<Rightarrow> sendRequest exampleLib httpReq) \<and>
   buildRequest exampleLib ''http://localhost:8080'' ''/pets/{id}'' ''get'' serverAddrArgs =
     Inr \<lparr>req_Method = ''GET'', req_URL = ''http://localhost:8080/pets/42'',
          req_Header = [], req_Body = None\<rparr>"
proof -
  have args: "getArgs [(''path|id'', JStr ''42'')] = Inr petIdArgs"
    by code_simp
  have req: "buildRequest exampleLib ''https://api.example.com'' ''/pets/{id}'' ''get'' petIdArgs =
     Inr \<lparr>req_Method = ''GET'', req_URL = ''https://api.example.com/pets/42'',
          req_Header = [], req_Body = None\<rparr>"
    by code_simp
  have args': "getArgs serverAddrArguments = Inr serverAddrArgs"
    by code_simp
  have req': "buildRequest exampleLib ''http://localhost:8080'' ''/pets/{id}'' ''get'' serverAddrArgs =
     Inr \<lparr>req_Method = ''GET'', req_URL = ''http://localhost:8080/pets/42'',
          req_Header = [], req_Body = None\<rparr>"
    by code_simp
  have d: "distinct (map fst [(''path|id'', JStr ''42'')])" "distinct (map fst serverAddrArguments)"
    by (simp_all add: serverAddrArguments_def)
  from server_resolution [OF args d(1), of exampleLib "[exampleServer]" "''/pets/{id}''" "''get''"]
    server_resolution [OF args' d(2), of exampleLib "[exampleServer]" "''/pets/{id}''" "''get''"]
    args req args' req'
  show ?thesis
    by (simp add: petIdArgs_def serverAddrArgs_def exampleServer_def)
qed

text \<open>
  The claim as the specification states it fails: with no server declared and no
  \<^verbatim>\<open>openapi|server_addr\<close>, the request for the bare path is handed to the client, and
  the failure that the caller sees is the client's.
\<close>

theorem no_server_reaches_the_client:
  "newHandler exampleLib (handlerServer []) ''/pets'' ''get'' [] =
     Inl (Error (''request failed: Get '' @ quoteJSON ''pets'' @
                 '': unsupported protocol scheme '' @ quoteJSON []))"
  by code_simp

subsection \<open>Payload and content type\<close>


lemma HasPrefix_Nil: "HasPrefix k []"
  by (simp add: HasPrefix_def)









subsection \<open>Result text\<close>

text \<open>
  Claim C8. When the call completes with status code \<open>c\<close> and the response body \<open>b\<close>
  has been read, the result text is \<^verbatim>\<open>status code: \<close>, \<open>c\<close> in decimal, a line feed,
  \<^verbatim>\<open>response body: \<close> and \<open>b\<close>.
\<close>

theorem result_text:
  assumes "handlerRequest l server path method arguments = Inr httpReq"
    and "clientDo l httpReq = Inr resp"
    and "resp_Body resp = Inr result"
  shows "newHandler l server path method arguments =
     Inr (''status code: '' @ decimal (StatusCode resp) @ [CHR 0x0A] @ ''response body: '' @ result)"
  using assms by (simp add: newHandler_def sendRequest_def)


theorem result_text_witness:
  "handlerRequest exampleLib (Some exampleServer) ''/pets/{id}'' ''get'' [(''path|id'', JStr ''42'')] =
     Inr \<lparr>req_Method = ''GET'', req_URL = ''https://api.example.com/pets/42'',
          req_Header = [], req_Body = None\<rparr> \<and>
   clientDo exampleLib \<lparr>req_Method = ''GET'', req_URL = ''https://api.example.com/pets/42'',
          req_Header = [], req_Body = None\<rparr> = Inr \<lparr>StatusCode = 200, resp_Body = Inr ''ok''\<rparr> \<and>
   newHandler exampleLib (Some exampleServer) ''/pets/{id}'' ''get'' [(''path|id'', JStr ''42'')] =
     Inr (''status code: 200'' @ [CHR 0x0A] @ ''response body: ok'')"
proof -
  let ?req = "\<lparr>req_Method = ''GET'', req_URL = ''https://api.example.com/pets/42'',
          req_Header = [], req_Body = None\<rparr>"
  let ?resp = "\<lparr>StatusCode = 200, resp_Body = Inr ''ok''\<rparr>"
  have req: "handlerRequest exampleLib (Some exampleServer) ''/pets/{id}'' ''get''
      [(''path|id'', JStr ''42'')] = Inr ?req"
    by code_simp
  have resp: "clientDo exampleLib ?req = Inr ?resp"
    by code_simp
  have body: "resp_Body ?resp = Inr ''ok''"
    by simp
  have dec: "decimal 200 = ''200''"
    by code_simp
  from result_text [OF req resp body] req resp dec show ?thesis
    by simp
qed

subsection \<open>API keys\<close>






section \<open>Properties of the schema walker\<close>

subsection \<open>The depth bound\<close>

text \<open>
  A walk that returns within some depth returns the same descriptor and the same map
  within every greater depth: the bound decides whether the model has a result, never
  which.
\<close>

lemma walkRefs_extended:
  "extendedBy f f' \<Longrightarrow> walkRefs f rs v = Some r \<Longrightarrow> walkRefs f' rs v = Some r"
proof (induction rs arbitrary: v r)
  case Nil
  then show ?case by simp
next
  case (Cons x rs)
  show ?case
  proof (cases x)
    case None
    with Cons show ?thesis by simp
  next
    case (Some p)
    with Cons.prems(2) obtain d v1 ds v2 where
      a: "f p v = Some (d, v1)" and b: "walkRefs f rs v1 = Some (ds, v2)" and r: "r = (d # ds, v2)"
      by (auto split: option.splits)
    from a Cons.prems(1) have "f' p v = Some (d, v1)" by (simp add: extendedBy_def)
    with Cons.IH [OF Cons.prems(1) b] Some r show ?thesis by simp
  qed
qed

lemma walkProps_extended:
  "extendedBy f f' \<Longrightarrow> walkProps f ps v acc = Some r \<Longrightarrow> walkProps f' ps v acc = Some r"
proof (induction ps arbitrary: v acc r)
  case Nil
  then show ?case by simp
next
  case (Cons kx ps)
  obtain k x where kx: "kx = (k, x)" by (cases kx)
  show ?case
  proof (cases x)
    case None
    with Cons kx show ?thesis by simp
  next
    case (Some p)
    with Cons.prems(2) kx obtain d v1 where
      a: "f p v = Some (d, v1)" and b: "walkProps f ps v1 (AList.update k d acc) = Some r"
      by (auto split: option.splits)
    from a Cons.prems(1) have "f' p v = Some (d, v1)" by (simp add: extendedBy_def)
    with Cons.IH [OF Cons.prems(1) b] Some kx show ?thesis by simp
  qed
qed

lemma walkOne_extended:
  "extendedBy f f' \<Longrightarrow> walkOne f key p v = Some r \<Longrightarrow> walkOne f' key p v = Some r"
  by (auto simp add: walkOne_def extendedBy_def split: option.splits)

lemma walkComposition_extended:
  "extendedBy f f' \<Longrightarrow> walkComposition f key rs v = Some r \<Longrightarrow> walkComposition f' key rs v = Some r"
  by (auto simp add: walkComposition_def split: option.splits if_splits dest: walkRefs_extended)

lemma walkNot_extended:
  "extendedBy f f' \<Longrightarrow> walkNot f s v = Some r \<Longrightarrow> walkNot f' s v = Some r"
  by (auto simp add: walkNot_def split: option.splits dest: walkOne_extended)

lemma walkAdditionalProperties_extended:
  "extendedBy f f' \<Longrightarrow> walkAdditionalProperties f s v = Some r \<Longrightarrow> walkAdditionalProperties f' s v = Some r"
  by (auto simp add: walkAdditionalProperties_def split: option.splits dest: walkOne_extended)

lemma walkNested_extended:
  "extendedBy f f' \<Longrightarrow> walkNested f s v = Some r \<Longrightarrow> walkNested f' s v = Some r"
  by (auto simp add: walkNested_def split: option.splits if_splits dest: walkProps_extended)

lemma walkItems_extended:
  "extendedBy g g' \<Longrightarrow> walkItems g s v = Some r \<Longrightarrow> walkItems g' s v = Some r"
  by (auto simp add: walkItems_def split: option.splits if_splits dest: walkOne_extended)

lemma walkItemProperties_extended:
  "extendedBy f f' \<Longrightarrow> walkItemProperties f s v = Some r \<Longrightarrow> walkItemProperties f' s v = Some r"
  by (auto simp add: walkItemProperties_def split: option.splits if_splits dest: walkProps_extended)

lemma walkItemItems_extended:
  "extendedBy g g' \<Longrightarrow> walkItemItems g s v = Some r \<Longrightarrow> walkItemItems g' s v = Some r"
  by (auto simp add: walkItemItems_def split: option.splits dest: walkOne_extended)

lemma depth_Suc:
  "extendedBy (processSchemaProperty n h) (processSchemaProperty (Suc n) h) \<and>
   extendedBy (processSchemaItems n h) (processSchemaItems (Suc n) h)"
proof (induction n)
  case 0
  then show ?case by (simp add: extendedBy_def)
next
  case (Suc n)
  from Suc.IH have f: "extendedBy (processSchemaProperty n h) (processSchemaProperty (Suc n) h)"
    by (rule conjunct1)
  from Suc.IH have g: "extendedBy (processSchemaItems n h) (processSchemaItems (Suc n) h)"
    by (rule conjunct2)
  have "processSchemaProperty (Suc (Suc n)) h p v = Some r"
    if "processSchemaProperty (Suc n) h p v = Some r" for p v r
  proof (cases "Title (h p) \<noteq> [] \<and> Title (h p) \<in> v")
    case True
    with that show ?thesis by (simp add: Let_def)
  next
    case False
    let ?s = "h p"
    let ?cv = "if Title ?s \<noteq> [] then insert (Title ?s) v else v"
    from that False obtain e1 v1 e2 v2 e3 v3 e4 v4 e5 v5 e6 v6 e7 v7 where
      1: "walkComposition (processSchemaProperty n h) ''oneOf'' (OneOf ?s) ?cv = Some (e1, v1)" and
      2: "walkComposition (processSchemaProperty n h) ''anyOf'' (AnyOf ?s) v1 = Some (e2, v2)" and
      3: "walkComposition (processSchemaProperty n h) ''allOf'' (AllOf ?s) v2 = Some (e3, v3)" and
      4: "walkNot (processSchemaProperty n h) ?s v3 = Some (e4, v4)" and
      5: "walkAdditionalProperties (processSchemaProperty n h) ?s v4 = Some (e5, v5)" and
      6: "walkNested (processSchemaProperty n h) ?s v5 = Some (e6, v6)" and
      7: "walkItems (processSchemaItems n h) ?s v6 = Some (e7, v7)" and
      r: "r = (JObj
             (entryOpt ''type'' (Type ?s) typeValue @ basicMetadata ?s @
              e1 @ e2 @ e3 @ e4 @
              booleanFlags ?s @ validations ?s @
              e5 @ discriminatorEntry ?s @
              e6 @ e7 @
              externalDocsEntry ?s @ xmlEntry ?s),
             if Title ?s \<noteq> [] then ?cv else v7)"
      by (simp add: Let_def split: bind_splits prod.splits)
    note walkComposition_extended [OF f 1] walkComposition_extended [OF f 2]
      walkComposition_extended [OF f 3] walkNot_extended [OF f 4]
      walkAdditionalProperties_extended [OF f 5] walkNested_extended [OF f 6]
      walkItems_extended [OF g 7]
    with False r show ?thesis
      by (auto simp add: Let_def)
  qed
  moreover have "processSchemaItems (Suc (Suc n)) h p v = Some r"
    if "processSchemaItems (Suc n) h p v = Some r" for p v r
  proof -
    let ?s = "h p"
    from that obtain e1 v1 e2 v2 where
      1: "walkItemProperties (processSchemaProperty n h) ?s v = Some (e1, v1)" and
      2: "walkItemItems (processSchemaItems n h) ?s v1 = Some (e2, v2)" and
      r: "r = (JObj
           (entryOpt ''type'' (Type ?s) typeValue @
            entryIf (Description ?s \<noteq> []) ''description'' (JStr (Description ?s)) @
            e1 @ e2),
           v2)"
      by (simp add: Let_def split: bind_splits prod.splits)
    note walkItemProperties_extended [OF f 1] walkItemItems_extended [OF g 2]
    with r show ?thesis
      by (simp add: Let_def)
  qed
  ultimately show ?case
    by (simp add: extendedBy_def)
qed

lemma depth_mono:
  "processSchemaProperty n h p v = Some r \<Longrightarrow> processSchemaProperty (n + k) h p v = Some r"
proof (induction k)
  case 0
  then show ?case by simp
next
  case (Suc k)
  from depth_Suc [of "n + k" h]
  have "extendedBy (processSchemaProperty (n + k) h) (processSchemaProperty (Suc (n + k)) h)"
    by blast
  with Suc.IH [OF Suc.prems] show ?case
    unfolding extendedBy_def add_Suc_right by blast
qed


subsection \<open>Sibling branches\<close>

text \<open>
  Claim C1 does not hold of the code. A titled schema writes its title into the map it
  was given before it copies the map, so the title stays behind for the schemas that
  the caller walks next: of two properties that refer to \<^verbatim>\<open>User\<close>, the one walked
  first is expanded and the other is rendered as a circular reference, whichever of the
  two comes first (at every depth bound that lets the walk return).
\<close>

theorem sibling_branch_is_cut:
  "processSchemaProperty (3 + k) (siblingHeap [(''buyer'', Some 1), (''seller'', Some 1)]) 0 {} =
     Some (JObj [(''type'', JArr [JStr ''object'']),
                 (''properties'', JObj [(''buyer'', userDescriptor), (''seller'', circularStub ''User'')])],
           {''User''}) \<and>
   processSchemaProperty (3 + k) (siblingHeap [(''seller'', Some 1), (''buyer'', Some 1)]) 0 {} =
     Some (JObj [(''type'', JArr [JStr ''object'']),
                 (''properties'', JObj [(''seller'', userDescriptor), (''buyer'', circularStub ''User'')])],
           {''User''})"
proof -
  have "processSchemaProperty 3 (siblingHeap [(''buyer'', Some 1), (''seller'', Some 1)]) 0 {} =
     Some (JObj [(''type'', JArr [JStr ''object'']),
                 (''properties'', JObj [(''buyer'', userDescriptor), (''seller'', circularStub ''User'')])],
           {''User''})"
    by code_simp
  moreover
  have "processSchemaProperty 3 (siblingHeap [(''seller'', Some 1), (''buyer'', Some 1)]) 0 {} =
     Some (JObj [(''type'', JArr [JStr ''object'']),
                 (''properties'', JObj [(''seller'', userDescriptor), (''buyer'', circularStub ''User'')])],
           {''User''})"
    by code_simp
  ultimately show ?thesis
    by (blast intro: depth_mono)
qed

subsection \<open>Cycles\<close>























section \<open>Properties of the tool builder\<close>

subsection \<open>Tool name\<close>

text \<open>
  Claim C6 does not hold of the code for the root path. \<^verbatim>\<open>strings.Split\<close> of the empty
  string is a list of one empty part, so the branch that names the root path \<^verbatim>\<open>root\<close>
  is never taken: the generated name of \<^verbatim>\<open>GET /\<close> ends with the underscore.
\<close>

theorem root_path_name:
  "GetOperationID ''/'' ''get'' emptyOperation = ''get_'' \<and>
   convertOperation 0 exampleLib (\<lambda>p. emptySchema) oneServer ''/'' ''get'' emptyOperation =
     Some (Inr \<lparr>tool_Name = ''get_'',
                tool_Options =
                  [WithString ''openapi|server_addr''
                     [mcp_Description ''Server address to connect to'',
                      mcp_DefaultString ''https://api.example.com'',
                      mcp_Enum [''https://api.example.com'']],
                   WithDescription []]\<rparr>)"
  by code_simp

text \<open>The rest of the claim: the explicit id, the generated name, the prefix.\<close>

lemma Split_not_Nil: "Split s sep \<noteq> []"
  by (induction s) (auto split: list.splits)

lemma GetOperationID_generated:
  "OperationID operation = [] \<Longrightarrow>
   GetOperationID path method operation =
     ToLower method @ ''_'' @
     ReplaceAll (ReplaceAll (Join (Split (Trim path (CHR ''/'')) (CHR ''/'')) ''_'') ''{'' []) ''}'' []"
  by (simp add: GetOperationID_def Let_def Split_not_Nil)

lemma GetOperationID_explicit:
  "OperationID operation \<noteq> [] \<Longrightarrow> GetOperationID path method operation = OperationID operation"
  by (simp add: GetOperationID_def)

subsection \<open>Server address argument\<close>





end
